theory Spec2Isabelle
  imports Complex_Main "HOL-Library.Sublist"
begin

section \<open>Python values\<close>

text \<open>
  A Python \<open>str\<close> is a sequence of Unicode code points, so it is modelled as a list of
  natural numbers. ASCII text is written with \<open>ascii\<close>; every other character of the
  source is given by its code point (the Korean text of the source appears as
  hexadecimal numerals, the \<^verbatim>\<open>\uXXXX\<close> escapes of the same characters).
\<close>

type_synonym pystr = "nat list"

definition ascii :: "string \<Rightarrow> pystr" where
  "ascii s = map of_char s"

text \<open>
  A Python \<open>float\<close> is an IEEE double: a finite value, an infinity or a NaN. A finite
  double is modelled by the real number it denotes (a Python \<open>int\<close> passed where a float
  is expected is covered by the same constructor). Python compares a float with an
  \<open>int\<close> constant exactly, and every comparison with NaN is false.
\<close>

datatype pyfloat = Finite real | PosInf | NegInf | NaN

fun float_gt :: "pyfloat \<Rightarrow> int \<Rightarrow> bool" where
  "float_gt (Finite r) n = (r > of_int n)"
| "float_gt PosInf n = True"
| "float_gt NegInf n = False"
| "float_gt NaN n = False"

fun float_le :: "pyfloat \<Rightarrow> int \<Rightarrow> bool" where
  "float_le (Finite r) n = (r \<le> of_int n)"
| "float_le PosInf n = False"
| "float_le NegInf n = True"
| "float_le NaN n = False"

text \<open>
  The JSON-compatible values the tools receive and return. A \<open>dict\<close> keeps its
  insertion order, so it is an association list.
\<close>

datatype pyval =
    PNone
  | PBool bool
  | PInt int
  | PFloat pyfloat
  | PStr pystr
  | PList "pyval list"
  | PDict "(pystr \<times> pyval) list"

type_synonym pydict = "(pystr \<times> pyval) list"

text \<open>\<open>item v k\<close> is \<open>v[k]\<close> for a mapping \<open>v\<close> that has the key \<open>k\<close>.\<close>

definition item :: "pyval \<Rightarrow> string \<Rightarrow> pyval option" where
  "item v k = (case v of PDict kvs \<Rightarrow> map_of kvs (ascii k) | _ \<Rightarrow> None)"

datatype py_error = OverflowError | IndexError

section \<open>Built-in operations of Python used by the tools\<close>

text \<open>\<open>sub in s\<close> on strings: \<open>sub\<close> occurs in \<open>s\<close> as a contiguous run.\<close>

fun startswith :: "pystr \<Rightarrow> pystr \<Rightarrow> bool" where
  "startswith s [] = True"
| "startswith [] (p # ps) = False"
| "startswith (c # cs) (p # ps) = (c = p \<and> startswith cs ps)"

fun str_contains :: "pystr \<Rightarrow> pystr \<Rightarrow> bool" where
  "str_contains sub [] = (sub = [])"
| "str_contains sub (c # cs) = (startswith (c # cs) sub \<or> str_contains sub cs)"

text \<open>
  \<open>s.split(sep)\<close> for a separator of one character: the pieces between the
  occurrences of \<open>sep\<close>, at least one piece. \<open>cur\<close> holds the piece being read,
  reversed.
\<close>

fun split_from :: "nat \<Rightarrow> pystr \<Rightarrow> pystr \<Rightarrow> pystr list" where
  "split_from sep cur [] = [rev cur]"
| "split_from sep cur (c # cs) =
     (if c = sep then rev cur # split_from sep [] cs else split_from sep (c # cur) cs)"

definition str_split :: "pystr \<Rightarrow> nat \<Rightarrow> pystr list" where
  "str_split s sep = split_from sep [] s"

text \<open>\<open>xs[0]\<close> raises \<open>IndexError\<close> on an empty list.\<close>

definition index0 :: "'a list \<Rightarrow> py_error + 'a" where
  "index0 xs = (case xs of [] \<Rightarrow> Inl IndexError | x # _ \<Rightarrow> Inr x)"

text \<open>Decimal digits of a number, and \<open>%0wd\<close> for a number that is not negative.\<close>

fun str_nat :: "nat \<Rightarrow> pystr" where
  "str_nat n = (if n < 10 then [48 + n] else str_nat (n div 10) @ [48 + n mod 10])"

declare str_nat.simps [simp del]


definition zfill :: "nat \<Rightarrow> pystr \<Rightarrow> pystr" where
  "zfill w s = replicate (w - length s) 48 @ s"


subsection \<open>Dates\<close>

text \<open>
  A naive \<open>datetime\<close> is held as its proleptic Gregorian ordinal (\<open>toordinal()\<close>, day 1
  is 0001-01-01) and its time of day. The calendar functions follow the \<open>datetime\<close>
  module of CPython.
\<close>

record datetime =
  dt_ordinal :: int
  dt_hour :: nat
  dt_minute :: nat
  dt_second :: nat
  dt_microsecond :: nat

definition MAXORDINAL :: int where
  "MAXORDINAL = 3652059"

definition DAYS_IN_MONTH :: "int list" where
  "DAYS_IN_MONTH = [-1, 31, 28, 31, 30, 31, 30, 31, 31, 30, 31, 30, 31]"

definition DAYS_BEFORE_MONTH :: "int list" where
  "DAYS_BEFORE_MONTH = [-1, 0, 31, 59, 90, 120, 151, 181, 212, 243, 273, 304, 334]"

definition is_leap :: "int \<Rightarrow> bool" where
  "is_leap year = (year mod 4 = 0 \<and> (year mod 100 \<noteq> 0 \<or> year mod 400 = 0))"

definition days_before_year :: "int \<Rightarrow> int" where
  "days_before_year year =
     (let y = year - 1 in y * 365 + y div 4 - y div 100 + y div 400)"

definition days_in_month :: "int \<Rightarrow> int \<Rightarrow> int" where
  "days_in_month year month =
     (if month = 2 \<and> is_leap year then 29 else DAYS_IN_MONTH ! nat month)"

definition days_before_month :: "int \<Rightarrow> int \<Rightarrow> int" where
  "days_before_month year month =
     DAYS_BEFORE_MONTH ! nat month + (if month > 2 \<and> is_leap year then 1 else 0)"

definition ymd2ord :: "int \<Rightarrow> int \<Rightarrow> int \<Rightarrow> int" where
  "ymd2ord year month day = days_before_year year + days_before_month year month + day"

definition DI400Y :: int where "DI400Y = 146097"
definition DI100Y :: int where "DI100Y = 36524"
definition DI4Y :: int where "DI4Y = 1461"

definition ord2ymd :: "int \<Rightarrow> int \<times> int \<times> int" where
  "ord2ymd ordinal =
     (let n = ordinal - 1;
          n400 = n div DI400Y; n = n mod DI400Y;
          year = n400 * 400 + 1;
          n100 = n div DI100Y; n = n mod DI100Y;
          n4 = n div DI4Y; n = n mod DI4Y;
          n1 = n div 365; n = n mod 365;
          year = year + (n100 * 100 + n4 * 4 + n1)
      in if n1 = 4 \<or> n100 = 4 then (year - 1, 12, 31)
         else
           let leapyear = (n1 = 3 \<and> (n4 \<noteq> 24 \<or> n100 = 3));
               month = (n + 50) div 32;
               preceding = DAYS_BEFORE_MONTH ! nat month
                             + (if month > 2 \<and> leapyear then 1 else 0)
           in if preceding > n
              then
                let month = month - 1;
                    preceding = preceding
                                  - (DAYS_IN_MONTH ! nat month
                                     + (if month = 2 \<and> leapyear then 1 else 0))
                in (year, month, n - preceding + 1)
              else (year, month, n - preceding + 1))"

text \<open>\<open>timedelta(days=d)\<close> raises \<open>OverflowError\<close> beyond 999999999 days.\<close>

definition timedelta :: "int \<Rightarrow> py_error + int" where
  "timedelta days = (if \<bar>days\<bar> > 999999999 then Inl OverflowError else Inr days)"

text \<open>
  \<open>dt + delta\<close> for a delta of whole days raises \<open>OverflowError\<close> when the day
  leaves the range 0001-01-01 to 9999-12-31.
\<close>

definition datetime_add :: "datetime \<Rightarrow> int \<Rightarrow> py_error + datetime" where
  "datetime_add dt delta =
     (let days = dt_ordinal dt + delta
      in if 0 < days \<and> days \<le> MAXORDINAL then Inr (dt\<lparr>dt_ordinal := days\<rparr>)
         else Inl OverflowError)"

text \<open>
  \<open>dt.strftime("%Y-%m-%d")\<close>. The year is formatted by the C library: four digits,
  zero-filled, on the platforms where \<open>pad_year\<close> holds, and the plain decimal number
  on the others (glibc); the two agree from the year 1000 on.
\<close>

definition strftime_Ymd :: "bool \<Rightarrow> datetime \<Rightarrow> pystr" where
  "strftime_Ymd pad_year dt =
     (case ord2ymd (dt_ordinal dt) of (year, month, day) \<Rightarrow>
        (if pad_year then zfill 4 (str_nat (nat year)) else str_nat (nat year))
        @ (ascii ''-'') @ zfill 2 (str_nat (nat month))
        @ (ascii ''-'') @ zfill 2 (str_nat (nat day)))"


text \<open>
  The last step of \<open>ord2ymd\<close> on its own: month and day from the offset \<open>n\<close> of
  the day in its year. It is used to reason about \<open>ord2ymd\<close>.
\<close>

definition month_day_of :: "int \<Rightarrow> bool \<Rightarrow> int \<Rightarrow> int \<times> int \<times> int" where
  "month_day_of year leapyear n =
     (let month = (n + 50) div 32;
          preceding = DAYS_BEFORE_MONTH ! nat month
                        + (if month > 2 \<and> leapyear then 1 else 0)
      in if preceding > n
         then
           let month = month - 1;
               preceding = preceding
                             - (DAYS_IN_MONTH ! nat month
                                + (if month = 2 \<and> leapyear then 1 else 0))
           in (year, month, n - preceding + 1)
         else (year, month, n - preceding + 1))"

text \<open>
  The form YYYY-MM-DD of the claims: ten characters, digits except for a "-" at the
  fifth and at the eighth place.
\<close>

definition is_digit :: "nat \<Rightarrow> bool" where
  "is_digit c = (48 \<le> c \<and> c \<le> 57)"

definition YYYY_MM_DD :: "pystr \<Rightarrow> bool" where
  "YYYY_MM_DD s =
     (length s = 10 \<and> list_all is_digit (take 4 s) \<and> s ! 4 = 45
      \<and> list_all is_digit (take 2 (drop 5 s)) \<and> s ! 7 = 45
      \<and> list_all is_digit (drop 8 s))"

section \<open>The tools (customer\_service/tools/tools.py)\<close>


definition approve_discount :: "pystr \<Rightarrow> pyfloat \<Rightarrow> pystr \<Rightarrow> pyval" where
  "approve_discount discount_type value reason =
     (if float_gt value 10
      then PDict [((ascii ''status''), PStr (ascii ''rejected'')),
                  ((ascii ''message''), PStr (ascii ''discount too large. Must be 10 or less.''))]
      else PDict [((ascii ''status''), PStr (ascii ''ok''))])"












definition schedule_planting_service ::
    "pystr \<Rightarrow> pystr \<Rightarrow> pystr \<Rightarrow> pystr \<Rightarrow> pystr \<Rightarrow> py_error + pyval" where
  "schedule_planting_service uuid4 customer_id date time_range details =
     (case index0 (str_split time_range (of_char CHR ''-'')) of
        Inl e \<Rightarrow> Inl e
      | Inr start_time_str \<Rightarrow>
          let confirmation_time_str = date @ (ascii '' '') @ start_time_str @ (ascii '':00'')
          in Inr (PDict [((ascii ''status''), PStr (ascii ''success'')),
                         ((ascii ''appointment_id''), PStr uuid4),
                         ((ascii ''date''), PStr date),
                         ((ascii ''time''), PStr time_range),
                         ((ascii ''treatment''), PStr details),
                         ((ascii ''confirmation_time''), PStr confirmation_time_str),
                         ((ascii ''location''), PStr ([0xC5D8, 0xB9AC, 0xD2B8] @ ascii '' '' @ [0xBDF0, 0xD2F0] @ ascii '' '' @ [0xD074, 0xB9AC, 0xB2C9] @ ascii '' '' @ [0xAC15, 0xB0A8, 0xC810]))]))"



definition generate_qr_code ::
    "datetime \<Rightarrow> bool \<Rightarrow> pystr \<Rightarrow> pyfloat \<Rightarrow> pystr \<Rightarrow> int \<Rightarrow> py_error + pyval" where
  "generate_qr_code now pad_year customer_id discount_value discount_type expiration_days =
     (if (discount_type = (ascii '''') \<or> discount_type = (ascii ''percentage'')) \<and> float_gt discount_value 10
      then Inr (PStr (ascii ''cannot generate a QR code for this amount, must be 10% or less''))
      else if discount_type = (ascii ''fixed'') \<and> float_gt discount_value 20
      then Inr (PStr (ascii ''cannot generate a QR code for this amount, must be 20 or less''))
      else
        case timedelta expiration_days of
          Inl e \<Rightarrow> Inl e
        | Inr delta \<Rightarrow>
            (case datetime_add now delta of
               Inl e \<Rightarrow> Inl e
             | Inr expiration \<Rightarrow>
                 let expiration_date = strftime_Ymd pad_year expiration
                 in Inr (PDict [((ascii ''status''), PStr (ascii ''success'')),
                                ((ascii ''qr_code_data''), PStr (ascii ''MOCK_QR_CODE_DATA'')),
                                ((ascii ''expiration_date''), PStr expiration_date)])))"


definition collect_feedback :: "pystr \<Rightarrow> int \<Rightarrow> pystr \<Rightarrow> pystr \<Rightarrow> pyval" where
  "collect_feedback customer_id rating feedback treatment_type =
     (if rating < 1 \<or> rating > 5
      then PDict [((ascii ''status''), PStr (ascii ''error'')),
                  ((ascii ''message''), PStr ([0xD3C9, 0xC810, 0xC740] @ ascii '' 1~5'' @ [0xC810] @ ascii '' '' @ [0xC0AC, 0xC774, 0xC5EC, 0xC57C] @ ascii '' '' @ [0xD569, 0xB2C8, 0xB2E4] @ ascii ''.''))]
      else PDict [((ascii ''status''), PStr (ascii ''success'')),
                  ((ascii ''message''), PStr ([0xD53C, 0xB4DC, 0xBC31, 0xC774] @ ascii '' '' @ [0xC131, 0xACF5, 0xC801, 0xC73C, 0xB85C] @ ascii '' '' @ [0xC800, 0xC7A5, 0xB418, 0xC5C8, 0xC2B5, 0xB2C8, 0xB2E4] @ ascii ''.'')),
                  ((ascii ''rating''), PInt rating),
                  ((ascii ''feedback''), PStr feedback),
                  ((ascii ''treatment''), PStr treatment_type)])"











section \<open>The customer entity (customer\_service/entities/customer.py)\<close>

text \<open>
  The pydantic models as records. Field names that two models share, or that are
  constants of HOL, carry a prefix.
\<close>

record Address =
  street :: pystr
  city :: pystr
  state :: pystr
  zip_code :: pystr

record Product =
  product_id :: pystr
  name :: pystr
  quantity :: int

record Purchase =
  date :: pystr
  items :: "Product list"
  total_amount :: pyfloat

record CommunicationPreferences =
  pref_email :: bool
  pref_sms :: bool
  push_notifications :: bool

record BeautyProfile =
  skin_type :: pystr
  concerns :: "pystr list"
  previous_treatments :: "pystr list"
  preferred_treatment_time :: pystr
  budget_range :: pystr

record Customer =
  account_number :: pystr
  customer_id :: pystr
  customer_first_name :: pystr
  customer_last_name :: pystr
  email :: pystr
  phone_number :: pystr
  customer_start_date :: pystr
  years_as_customer :: int
  billing_address :: Address
  treatment_history :: "Purchase list"
  loyalty_points :: int
  preferred_clinic :: pystr
  communication_preferences :: CommunicationPreferences
  beauty_profile :: BeautyProfile
  scheduled_appointments :: pydict

text \<open>
  \<open>Customer.get_customer\<close> is declared to return \<open>Optional[Customer]\<close>; \<open>None\<close>
  is the answer "not found".
\<close>

definition get_customer :: "pystr \<Rightarrow> Customer option" where
  "get_customer current_customer_id =
     Some \<lparr>
       account_number = (ascii ''428765091''),
       customer_id = current_customer_id,
       customer_first_name = ([0xBBFC, 0xC9C0]),
       customer_last_name = ([0xAE40]),
       email = (ascii ''minji.kim@example.com''),
       phone_number = (ascii ''+82-10-1234-5678''),
       customer_start_date = (ascii ''2022-06-10''),
       years_as_customer = 2,
       billing_address =
         \<lparr>street = (ascii ''123 '' @ [0xAC15, 0xB0A8, 0xB300, 0xB85C]), city = ([0xC11C, 0xC6B8]), state = ([0xAC15, 0xB0A8, 0xAD6C]), zip_code = (ascii ''06292'')\<rparr>,
       treatment_history = [
         \<lparr>date = (ascii ''2023-03-05''),
          items = [
            \<lparr>product_id = (ascii ''botox-111''), name = ([0xBCF4, 0xD1A1, 0xC2A4] @ ascii '' ('' @ [0xC774, 0xB9C8] @ ascii '')''), quantity = 1\<rparr>,
            \<lparr>product_id = (ascii ''skincare-222''), name = ([0xD558, 0xC774, 0xB4DC, 0xB77C, 0xD398, 0xC774, 0xC15C]), quantity = 1\<rparr>],
          total_amount = Finite 350000\<rparr>,
         \<lparr>date = (ascii ''2023-07-12''),
          items = [
            \<lparr>product_id = (ascii ''filler-333''), name = ([0xD544, 0xB7EC] @ ascii '' ('' @ [0xBCFC] @ ascii '')''), quantity = 1\<rparr>,
            \<lparr>product_id = (ascii ''laser-444''), name = ([0xB808, 0xC774, 0xC800] @ ascii '' '' @ [0xD1A0, 0xB2DD]), quantity = 1\<rparr>],
          total_amount = Finite 520000\<rparr>,
         \<lparr>date = (ascii ''2024-01-20''),
          items = [
            \<lparr>product_id = (ascii ''peel-555''), name = ([0xD654, 0xD559, 0xC801] @ ascii '' '' @ [0xD544, 0xB9C1]), quantity = 1\<rparr>,
            \<lparr>product_id = (ascii ''massage-666''), name = ([0xC5BC, 0xAD74] @ ascii '' '' @ [0xB9C8, 0xC0AC, 0xC9C0]), quantity = 1\<rparr>],
          total_amount = Finite 180000\<rparr>],
       loyalty_points = 1050,
       preferred_clinic = ([0xC5D8, 0xB9AC, 0xD2B8] @ ascii '' '' @ [0xBDF0, 0xD2F0] @ ascii '' '' @ [0xD074, 0xB9AC, 0xB2C9] @ ascii '' '' @ [0xAC15, 0xB0A8, 0xC810]),
       communication_preferences =
         \<lparr>pref_email = True, pref_sms = True, push_notifications = True\<rparr>,
       beauty_profile =
         \<lparr>skin_type = ([0xBCF5, 0xD569, 0xC131]),
          concerns = [([0xC0C9, 0xC18C, 0xCE68, 0xCC29]), ([0xC8FC, 0xB984]), ([0xBAA8, 0xACF5])],
          previous_treatments = [([0xBCF4, 0xD1A1, 0xC2A4]), ([0xD544, 0xB7EC]), ([0xB808, 0xC774, 0xC800, 0xD1A0, 0xB2DD])],
          preferred_treatment_time = ([0xC624, 0xD6C4]),
          budget_range = ([0xC6D4] @ ascii '' 30-50'' @ [0xB9CC, 0xC6D0])\<rparr>,
       scheduled_appointments = []
     \<rparr>"

section \<open>Calling a tool\<close>

text \<open>
  The orchestrator selects a tool by name and supplies its arguments. \<open>tool_call\<close>
  has one constructor for each function of tools.py, with the arguments of that
  function; \<open>run_tool\<close> is the result of the call, \<open>Inl\<close> when the call raises.
  What the call reads from outside its arguments is in \<open>env\<close>.
\<close>

record env =
  env_now :: datetime
  env_pad_year :: bool
  env_uuid4 :: pystr
  env_lower :: "pystr \<Rightarrow> pystr"
  env_repr_other :: "pyval \<Rightarrow> pystr"



text \<open>
  An environment for the examples: the clock reads 2024-07-25 10:00:00 (ordinal
  739092), \<open>lower\<close> and the text of other values are taken from the ASCII range
  only.
\<close>

definition ascii_lower :: "pystr \<Rightarrow> pystr" where
  "ascii_lower s = map (\<lambda>c. if 65 \<le> c \<and> c \<le> 90 then c + 32 else c) s"

definition example_env :: env where
  "example_env =
     \<lparr>env_now = \<lparr>dt_ordinal = 739092, dt_hour = 10, dt_minute = 0, dt_second = 0,
                  dt_microsecond = 0\<rparr>,
      env_pad_year = False,
      env_uuid4 = (ascii ''3f2b8c1e-5d4a-4e6f-9a7b-0c1d2e3f4a5b''),
      env_lower = ascii_lower,
      env_repr_other = (\<lambda>v. (ascii ''?''))\<rparr>"

section \<open>Facts about the built-in operations\<close>

lemma ascii_eq_iff [simp]: "(ascii a = ascii b) = (a = b)"
  unfolding ascii_def by (rule inj_map_eq_map) (rule inj_of_char)

lemma ascii_Nil [simp]: "ascii [] = []"
  by (simp add: ascii_def)

lemma ascii_Cons: "ascii (c # cs) = of_char c # ascii cs"
  by (simp add: ascii_def)



text \<open>The first piece of \<open>split\<close> is what stands before the first separator.\<close>

lemma split_from_hd:
  "split_from sep cur s \<noteq> []
   \<and> hd (split_from sep cur s) = rev cur @ takeWhile (\<lambda>c. c \<noteq> sep) s"
  by (induction s arbitrary: cur) simp_all

lemma index0_split: "index0 (str_split s sep) = Inr (takeWhile (\<lambda>c. c \<noteq> sep) s)"
  using split_from_hd [of sep "[]" s]
  by (cases "split_from sep [] s") (simp_all add: index0_def str_split_def)


section \<open>Discount approval\<close>

lemma rejection_message_mentions_cap:
  "str_contains (ascii ''10'') (ascii ''discount too large. Must be 10 or less.'')"
  by (simp add: ascii_Cons)

text \<open>
  Claim C1. For every discount type, reason and value, \<open>approve_discount\<close> returns a
  mapping with status "rejected" and a message that contains "10" when the value is
  greater than 10, and a mapping with status "ok" when the value is at most 10; the
  result does not depend on the discount type (nor on the reason).
\<close>

theorem approve_discount_cap:
  "(float_gt v 10 \<longrightarrow>
      item (approve_discount discount_type v reason) ''status'' = Some (PStr (ascii ''rejected''))
      \<and> (\<exists>m. item (approve_discount discount_type v reason) ''message'' = Some (PStr m)
             \<and> str_contains (ascii ''10'') m))
   \<and> (float_le v 10 \<longrightarrow>
      item (approve_discount discount_type v reason) ''status'' = Some (PStr (ascii ''ok'')))
   \<and> approve_discount discount_type v reason = approve_discount discount_type' v reason'"
proof -
  have "float_le v 10 \<Longrightarrow> \<not> float_gt v 10"
    by (cases v) simp_all
  then show ?thesis
    by (auto simp: approve_discount_def item_def rejection_message_mentions_cap)
qed

theorem approve_discount_cap_witness:
  "float_gt (Finite 15) 10
   \<and> item (approve_discount (ascii ''percentage'') (Finite 15) (ascii ''Customer loyalty''))
        ''status'' = Some (PStr (ascii ''rejected''))
   \<and> float_le (Finite 10) 10
   \<and> item (approve_discount (ascii ''flat'') (Finite 10) (ascii ''Customer loyalty''))
        ''status'' = Some (PStr (ascii ''ok''))"
  using approve_discount_cap [of "Finite 15" "ascii ''percentage''" "ascii ''Customer loyalty''"]
    approve_discount_cap [of "Finite 10" "ascii ''flat''" "ascii ''Customer loyalty''"]
  by simp

section \<open>Feedback\<close>

text \<open>
  Claim C5. For every integer rating from 1 to 5, \<open>collect_feedback\<close> returns a
  mapping with status "success"; for every other integer rating it returns a mapping
  with status "error". It returns a mapping on every input: it has no raising branch.
\<close>

theorem collect_feedback_rating:
  "(1 \<le> rating \<and> rating \<le> 5 \<longrightarrow>
      item (collect_feedback cid rating feedback treatment_type) ''status''
        = Some (PStr (ascii ''success'')))
   \<and> (rating < 1 \<or> 5 < rating \<longrightarrow>
      item (collect_feedback cid rating feedback treatment_type) ''status''
        = Some (PStr (ascii ''error'')))
   \<and> (\<exists>kvs. collect_feedback cid rating feedback treatment_type = PDict kvs)"
  by (auto simp: collect_feedback_def item_def)

theorem collect_feedback_rating_witness:
  "item (collect_feedback (ascii ''123'') 5 (ascii ''good'') (ascii ''botox'')) ''status''
     = Some (PStr (ascii ''success''))
   \<and> item (collect_feedback (ascii ''123'') 1 (ascii ''good'') (ascii ''botox'')) ''status''
     = Some (PStr (ascii ''success''))
   \<and> item (collect_feedback (ascii ''123'') 0 (ascii ''good'') (ascii ''botox'')) ''status''
     = Some (PStr (ascii ''error''))
   \<and> item (collect_feedback (ascii ''123'') 6 (ascii ''good'') (ascii ''botox'')) ''status''
     = Some (PStr (ascii ''error''))"
  using collect_feedback_rating [of 5 "ascii ''123''" "ascii ''good''" "ascii ''botox''"]
    collect_feedback_rating [of 1 "ascii ''123''" "ascii ''good''" "ascii ''botox''"]
    collect_feedback_rating [of 0 "ascii ''123''" "ascii ''good''" "ascii ''botox''"]
    collect_feedback_rating [of 6 "ascii ''123''" "ascii ''good''" "ascii ''botox''"]
  by simp

section \<open>Recommendations\<close>





section \<open>Scheduling\<close>

text \<open>
  Claim C7. Every call of \<open>schedule_planting_service\<close> returns a mapping with status
  "success" that echoes the date, the time range (as \<open>time\<close>) and the details (as
  \<open>treatment\<close>) unchanged, and whose \<open>confirmation_time\<close> is the date, a space, the
  part of the time range before its first "-", and ":00"; when the time range has no
  "-", that part is the whole time range.
\<close>

theorem schedule_planting_service_result:
  "\<exists>res. schedule_planting_service uuid4 cid day time_range details = Inr res
     \<and> item res ''status'' = Some (PStr (ascii ''success''))
     \<and> item res ''date'' = Some (PStr day)
     \<and> item res ''time'' = Some (PStr time_range)
     \<and> item res ''treatment'' = Some (PStr details)
     \<and> item res ''confirmation_time'' =
         Some (PStr (day @ ascii '' '' @ takeWhile (\<lambda>c. c \<noteq> of_char CHR ''-'') time_range
                     @ ascii '':00''))
     \<and> (of_char CHR ''-'' \<notin> set time_range \<longrightarrow>
          item res ''confirmation_time''
            = Some (PStr (day @ ascii '' '' @ time_range @ ascii '':00'')))"
  by (auto simp: schedule_planting_service_def index0_split item_def takeWhile_eq_all_conv)

theorem schedule_planting_service_result_witness:
  "(\<exists>res. schedule_planting_service (env_uuid4 example_env) (ascii ''123'')
            (ascii ''2024-07-29'') (ascii ''9-12'') (ascii ''x'') = Inr res
      \<and> item res ''status'' = Some (PStr (ascii ''success''))
      \<and> item res ''date'' = Some (PStr (ascii ''2024-07-29''))
      \<and> item res ''time'' = Some (PStr (ascii ''9-12''))
      \<and> item res ''confirmation_time'' = Some (PStr (ascii ''2024-07-29 9:00'')))
   \<and> (\<exists>res. schedule_planting_service (env_uuid4 example_env) (ascii ''123'')
            (ascii ''2024-07-29'') (ascii ''14'') (ascii ''x'') = Inr res
      \<and> item res ''confirmation_time'' = Some (PStr (ascii ''2024-07-29 14:00'')))"
proof -
  have a: "takeWhile (\<lambda>c. c \<noteq> of_char CHR ''-'') (ascii ''9-12'') = ascii ''9''"
    by (simp add: ascii_def)
  have b: "ascii ''2024-07-29'' @ ascii '' '' @ ascii ''9'' @ ascii '':00''
             = ascii ''2024-07-29 9:00''"
    by (simp add: ascii_def)
  have c: "of_char CHR ''-'' \<notin> set (ascii ''14'')"
    by (simp add: ascii_def)
  have d: "ascii ''2024-07-29'' @ ascii '' '' @ ascii ''14'' @ ascii '':00''
             = ascii ''2024-07-29 14:00''"
    by (simp add: ascii_def)
  from schedule_planting_service_result
    [of "env_uuid4 example_env" "ascii ''123''" "ascii ''2024-07-29''" "ascii ''9-12''"
      "ascii ''x''"]
  have "\<exists>res. schedule_planting_service (env_uuid4 example_env) (ascii ''123'')
            (ascii ''2024-07-29'') (ascii ''9-12'') (ascii ''x'') = Inr res
      \<and> item res ''status'' = Some (PStr (ascii ''success''))
      \<and> item res ''date'' = Some (PStr (ascii ''2024-07-29''))
      \<and> item res ''time'' = Some (PStr (ascii ''9-12''))
      \<and> item res ''confirmation_time'' = Some (PStr (ascii ''2024-07-29 9:00''))"
    unfolding a b by blast
  moreover
  from schedule_planting_service_result
    [of "env_uuid4 example_env" "ascii ''123''" "ascii ''2024-07-29''" "ascii ''14''"
      "ascii ''x''"] c
  have "\<exists>res. schedule_planting_service (env_uuid4 example_env) (ascii ''123'')
            (ascii ''2024-07-29'') (ascii ''14'') (ascii ''x'') = Inr res
      \<and> item res ''confirmation_time'' = Some (PStr (ascii ''2024-07-29 14:00''))"
    unfolding d by blast
  ultimately show ?thesis by blast
qed

section \<open>Deep links\<close>



section \<open>The customer profile\<close>

text \<open>
  Claim C9, as amended. \<open>get_customer\<close> returns a profile for every id, never
  \<open>None\<close>. The profile carries the id that was supplied in its \<open>customer_id\<close> field;
  every other field is the same for all ids.
\<close>

theorem get_customer_echoes_id:
  "(\<exists>c. get_customer cid = Some c \<and> customer_id c = cid)
   \<and> map_option (\<lambda>c. c\<lparr>customer_id := []\<rparr>) (get_customer cid)
       = map_option (\<lambda>c. c\<lparr>customer_id := []\<rparr>) (get_customer cid')"
  by (simp add: get_customer_def)

theorem get_customer_echoes_id_witness:
  "(\<exists>c. get_customer (ascii ''123'') = Some c \<and> customer_id c = ascii ''123'')
   \<and> map_option (\<lambda>c. c\<lparr>customer_id := []\<rparr>) (get_customer (ascii ''123''))
       = map_option (\<lambda>c. c\<lparr>customer_id := []\<rparr>) (get_customer (ascii ''456''))"
  using get_customer_echoes_id [of "ascii ''123''" "ascii ''456''"] .

text \<open>
  Claim C9 as stated fails: the profiles returned for two different ids are not the
  same profile.
\<close>

theorem get_customer_counterexample:
  "get_customer (ascii ''123'') \<noteq> get_customer (ascii ''456'')"
  by (simp add: get_customer_def)

section \<open>The calendar\<close>

lemma year_divs:
  fixes a b c e :: int
  assumes "0 \<le> b" "b \<le> 3" "0 \<le> c" "c \<le> 24" "0 \<le> e" "e \<le> 3"
  shows "(400 * a + 100 * b + 4 * c + e) div 4 = 100 * a + 25 * b + c"
    and "(400 * a + 100 * b + 4 * c + e) div 100 = 4 * a + b"
    and "(400 * a + 100 * b + 4 * c + e) div 400 = a"
proof -
  have "400 * a + 100 * b + 4 * c + e = e + 4 * (100 * a + 25 * b + c)" by simp
  then have "(400 * a + 100 * b + 4 * c + e) div 4 = e div 4 + (100 * a + 25 * b + c)"
    by (simp only: div_mult_self2)
  with assms show "(400 * a + 100 * b + 4 * c + e) div 4 = 100 * a + 25 * b + c"
    by simp
  have "400 * a + 100 * b + 4 * c + e = (4 * c + e) + 100 * (4 * a + b)" by simp
  then have "(400 * a + 100 * b + 4 * c + e) div 100 = (4 * c + e) div 100 + (4 * a + b)"
    by (simp only: div_mult_self2)
  with assms show "(400 * a + 100 * b + 4 * c + e) div 100 = 4 * a + b"
    by simp
  have "400 * a + 100 * b + 4 * c + e = (100 * b + 4 * c + e) + 400 * a" by simp
  then have "(400 * a + 100 * b + 4 * c + e) div 400 = (100 * b + 4 * c + e) div 400 + a"
    by (simp only: div_mult_self2)
  with assms show "(400 * a + 100 * b + 4 * c + e) div 400 = a"
    by simp
qed

lemma year_leap:
  fixes a b c e :: int
  assumes "0 \<le> b" "b \<le> 3" "0 \<le> c" "c \<le> 24" "0 \<le> e" "e \<le> 3"
  shows "is_leap (400 * a + 100 * b + 4 * c + e + 1) = (e = 3 \<and> (c \<noteq> 24 \<or> b = 3))"
proof -
  define Y where "Y = 400 * a + 100 * b + 4 * c + e + 1"
  define x where "x = 4 * c + e + 1"
  define z where "z = 100 * b + 4 * c + e + 1"
  have x: "1 \<le> x" "x \<le> 100" and z: "1 \<le> z" "z \<le> 400"
    using assms by (simp_all add: x_def z_def)
  have "Y = (e + 1) + 4 * (100 * a + 25 * b + c)" by (simp add: Y_def)
  then have "Y mod 4 = (e + 1) mod 4" by (simp only: mod_mult_self2)
  moreover have "(e + 1) mod 4 = 0 \<longleftrightarrow> e = 3"
    using assms(5,6) by presburger
  ultimately have m4: "Y mod 4 = 0 \<longleftrightarrow> e = 3" by simp
  have "Y = x + 100 * (4 * a + b)" by (simp add: Y_def x_def)
  then have "Y mod 100 = x mod 100" by (simp only: mod_mult_self2)
  moreover have "x mod 100 = 0 \<longleftrightarrow> x = 100"
    using x by presburger
  ultimately have m100: "Y mod 100 = 0 \<longleftrightarrow> 4 * c + e + 1 = 100" by (simp add: x_def)
  have "Y = z + 400 * a" by (simp add: Y_def z_def)
  then have "Y mod 400 = z mod 400" by (simp only: mod_mult_self2)
  moreover have "z mod 400 = 0 \<longleftrightarrow> z = 400"
    using z by presburger
  ultimately have m400: "Y mod 400 = 0 \<longleftrightarrow> 100 * b + 4 * c + e + 1 = 400"
    by (simp add: z_def)
  from assms show ?thesis
    unfolding is_leap_def Y_def [symmetric] m4 m100 m400 by auto
qed

lemma month_day_of_correct:
  fixes u :: int
  assumes "0 \<le> u" "u < 365"
  shows "case month_day_of y leap u of
           (y', m, d) \<Rightarrow> y' = y \<and> 1 \<le> m \<and> m \<le> 12 \<and> 1 \<le> d \<and> d \<le> 31
             \<and> d \<le> (if m = 2 \<and> leap then 29 else DAYS_IN_MONTH ! nat m)
             \<and> DAYS_BEFORE_MONTH ! nat m + (if m > 2 \<and> leap then 1 else 0) + d = u + 1"
proof -
  define k where "k = (u + 50) div 32"
  have k: "32 * k \<le> u + 50" "u + 50 < 32 * k + 32"
    unfolding k_def by linarith+
  with assms have "1 \<le> k" "k \<le> 12" by linarith+
  then have "k = 1 \<or> k = 2 \<or> k = 3 \<or> k = 4 \<or> k = 5 \<or> k = 6 \<or> k = 7
    \<or> k = 8 \<or> k = 9 \<or> k = 10 \<or> k = 11 \<or> k = 12"
    by presburger
  then consider "k = 1" | "k = 2" | "k = 3" | "k = 4" | "k = 5" | "k = 6" | "k = 7"
    | "k = 8" | "k = 9" | "k = 10" | "k = 11" | "k = 12"
    by blast
  then show ?thesis
  proof cases
    case 1 with k assms show ?thesis
      unfolding month_day_of_def k_def [symmetric] Let_def
      by (simp add: DAYS_BEFORE_MONTH_def DAYS_IN_MONTH_def)
  next
    case 2 with k assms show ?thesis
      unfolding month_day_of_def k_def [symmetric] Let_def
      by (simp add: DAYS_BEFORE_MONTH_def DAYS_IN_MONTH_def)
  next
    case 3 with k assms show ?thesis
      unfolding month_day_of_def k_def [symmetric] Let_def
      by (simp add: DAYS_BEFORE_MONTH_def DAYS_IN_MONTH_def)
  next
    case 4 with k assms show ?thesis
      unfolding month_day_of_def k_def [symmetric] Let_def
      by (simp add: DAYS_BEFORE_MONTH_def DAYS_IN_MONTH_def)
  next
    case 5 with k assms show ?thesis
      unfolding month_day_of_def k_def [symmetric] Let_def
      by (simp add: DAYS_BEFORE_MONTH_def DAYS_IN_MONTH_def)
  next
    case 6 with k assms show ?thesis
      unfolding month_day_of_def k_def [symmetric] Let_def
      by (simp add: DAYS_BEFORE_MONTH_def DAYS_IN_MONTH_def)
  next
    case 7 with k assms show ?thesis
      unfolding month_day_of_def k_def [symmetric] Let_def
      by (simp add: DAYS_BEFORE_MONTH_def DAYS_IN_MONTH_def)
  next
    case 8 with k assms show ?thesis
      unfolding month_day_of_def k_def [symmetric] Let_def
      by (simp add: DAYS_BEFORE_MONTH_def DAYS_IN_MONTH_def)
  next
    case 9 with k assms show ?thesis
      unfolding month_day_of_def k_def [symmetric] Let_def
      by (simp add: DAYS_BEFORE_MONTH_def DAYS_IN_MONTH_def)
  next
    case 10 with k assms show ?thesis
      unfolding month_day_of_def k_def [symmetric] Let_def
      by (simp add: DAYS_BEFORE_MONTH_def DAYS_IN_MONTH_def)
  next
    case 11 with k assms show ?thesis
      unfolding month_day_of_def k_def [symmetric] Let_def
      by (simp add: DAYS_BEFORE_MONTH_def DAYS_IN_MONTH_def)
  next
    case 12 with k assms show ?thesis
      unfolding month_day_of_def k_def [symmetric] Let_def
      by (simp add: DAYS_BEFORE_MONTH_def DAYS_IN_MONTH_def)
  qed
qed

lemma ord2ymd_month_day_of:
  "ord2ymd ordinal =
     (let n = ordinal - 1;
          n400 = n div 146097; n = n mod 146097;
          n100 = n div 36524; n = n mod 36524;
          n4 = n div 1461; n = n mod 1461;
          n1 = n div 365; n = n mod 365;
          year = n400 * 400 + 1 + (n100 * 100 + n4 * 4 + n1)
      in if n1 = 4 \<or> n100 = 4 then (year - 1, 12, 31)
         else month_day_of year (n1 = 3 \<and> (n4 \<noteq> 24 \<or> n100 = 3)) n)"
  unfolding ord2ymd_def month_day_of_def Let_def DI400Y_def DI100Y_def DI4Y_def
  by (rule refl)

lemma days_before_year_eq:
  fixes a b c e :: int
  assumes "0 \<le> b" "b \<le> 3" "0 \<le> c" "c \<le> 24" "0 \<le> e" "e \<le> 3"
  shows "days_before_year (400 * a + 100 * b + 4 * c + e + 1) =
           146097 * a + 36524 * b + 1461 * c + 365 * e"
  using year_divs [OF assms, of a] by (simp add: days_before_year_def)

lemma december_31:
  "is_leap y \<Longrightarrow> ymd2ord y 12 31 = days_before_year y + 366"
  "days_in_month y 12 = 31"
  by (simp_all add: ymd2ord_def days_before_month_def days_in_month_def
      DAYS_BEFORE_MONTH_def DAYS_IN_MONTH_def)

lemma ord2ymd_correct:
  assumes "1 \<le> n"
  shows "case ord2ymd n of
           (y, m, d) \<Rightarrow>
             ymd2ord y m d = n \<and> 1 \<le> y \<and> 1 \<le> m \<and> m \<le> 12 \<and> 1 \<le> d \<and> d \<le> 31
             \<and> d \<le> days_in_month y m
             \<and> (n \<le> MAXORDINAL \<longrightarrow> y \<le> 9999) \<and> (364878 \<le> n \<longrightarrow> 1000 \<le> y)"
proof -
  define q where "q = n - 1"
  define a where "a = q div 146097"
  define r where "r = q mod 146097"
  define b where "b = r div 36524"
  define s where "s = r mod 36524"
  define c where "c = s div 1461"
  define t where "t = s mod 1461"
  define e where "e = t div 365"
  define u where "u = t mod 365"
  have q: "q = 146097 * a + r" "0 \<le> r" "r < 146097" by (simp_all add: a_def r_def)
  have r: "r = 36524 * b + s" "0 \<le> s" "s < 36524" by (simp_all add: b_def s_def)
  have s: "s = 1461 * c + t" "0 \<le> t" "t < 1461" by (simp_all add: c_def t_def)
  have t: "t = 365 * e + u" "0 \<le> u" "u < 365" by (simp_all add: e_def u_def)
  have n: "n = 146097 * a + 36524 * b + 1461 * c + 365 * e + u + 1"
    using q(1) r(1) s(1) t(1) by (simp add: q_def)
  have a: "0 \<le> a" using assms q by (simp add: q_def)
  have b: "0 \<le> b" "b \<le> 4" using q r by linarith+
  have c: "0 \<le> c" "c \<le> 24" using r s by linarith+
  have e: "0 \<le> e" "e \<le> 4" using s t by linarith+
  have b4: "c = 0 \<and> e = 0 \<and> u = 0" if "b = 4"
    using that q r s t c e by linarith
  have e4: "u = 0 \<and> c \<le> 23" if "e = 4"
    using that r s t by linarith
  have max: "MAXORDINAL = 3652059" by (simp add: MAXORDINAL_def)
  have eq: "ord2ymd n =
      (if e = 4 \<or> b = 4 then (a * 400 + 1 + (b * 100 + c * 4 + e) - 1, 12, 31)
       else month_day_of (a * 400 + 1 + (b * 100 + c * 4 + e))
              (e = 3 \<and> (c \<noteq> 24 \<or> b = 3)) u)"
    unfolding ord2ymd_month_day_of Let_def u_def e_def t_def c_def s_def b_def r_def a_def
      q_def
    by (rule refl)
  consider (century) "b = 4" | (year) "b \<le> 3" "e = 4" | (normal) "b \<le> 3" "e \<le> 3"
    using b e by linarith
  then show ?thesis
  proof cases
    case century
    define y where "y = 400 * a + 100 * 3 + 4 * 24 + 3 + 1"
    from b4 [OF century] have z: "c = 0" "e = 0" "u = 0" by simp_all
    have res: "ord2ymd n = (y, 12, 31)"
      using eq century z by (simp add: y_def)
    have leap: "is_leap y"
      unfolding y_def using year_leap [of 3 24 3 a] by simp
    have "days_before_year y = 146097 * a + 36524 * 3 + 1461 * 24 + 365 * 3"
      unfolding y_def by (rule days_before_year_eq) simp_all
    with december_31 [of y] leap n century z have "ymd2ord y 12 31 = n" "days_in_month y 12 = 31"
      by simp_all
    moreover have "1 \<le> y" using a by (simp add: y_def)
    moreover have "n \<le> MAXORDINAL \<longrightarrow> y \<le> 9999"
      using n century z a unfolding max y_def by linarith
    moreover have "364878 \<le> n \<longrightarrow> 1000 \<le> y"
      using n century z a unfolding y_def by linarith
    ultimately show ?thesis by (simp add: res)
  next
    case year
    define y where "y = 400 * a + 100 * b + 4 * c + 3 + 1"
    from e4 [OF year(2)] have z: "u = 0" "c \<le> 23" by simp_all
    have res: "ord2ymd n = (y, 12, 31)"
      using eq year by (simp add: y_def)
    have leap: "is_leap y"
      unfolding y_def using year_leap [of b c 3 a] b c z year by simp
    have "days_before_year y = 146097 * a + 36524 * b + 1461 * c + 365 * 3"
      unfolding y_def using b c year by (intro days_before_year_eq) simp_all
    with december_31 [of y] leap n year z have "ymd2ord y 12 31 = n" "days_in_month y 12 = 31"
      by simp_all
    moreover have "1 \<le> y" using a b c by (simp add: y_def)
    moreover have "n \<le> MAXORDINAL \<longrightarrow> y \<le> 9999"
      using n year z a b c unfolding max y_def by linarith
    moreover have "364878 \<le> n \<longrightarrow> 1000 \<le> y"
      using n year z a b c unfolding y_def by linarith
    ultimately show ?thesis by (simp add: res)
  next
    case normal
    define y where "y = 400 * a + 100 * b + 4 * c + e + 1"
    define leap where "leap = (e = 3 \<and> (c \<noteq> 24 \<or> b = 3))"
    have res: "ord2ymd n = month_day_of y leap u"
      using eq normal e4 b4 by (auto simp: y_def leap_def algebra_simps)
    obtain y' m d where md: "month_day_of y leap u = (y', m, d)"
      by (cases "month_day_of y leap u")
    from month_day_of_correct [OF t(2,3), of y leap] md
    have props: "y' = y" "1 \<le> m" "m \<le> 12" "1 \<le> d" "d \<le> 31"
      "d \<le> (if m = 2 \<and> leap then 29 else DAYS_IN_MONTH ! nat m)"
      "DAYS_BEFORE_MONTH ! nat m + (if m > 2 \<and> leap then 1 else 0) + d = u + 1"
      by simp_all
    have leap: "is_leap y = leap"
      unfolding y_def leap_def using b c e normal by (intro year_leap) simp_all
    have "days_before_year y = 146097 * a + 36524 * b + 1461 * c + 365 * e"
      unfolding y_def using b c e normal by (intro days_before_year_eq) simp_all
    with props(7) n leap have "ymd2ord y m d = n"
      by (simp add: ymd2ord_def days_before_month_def)
    moreover have "d \<le> days_in_month y m"
      using props(6) leap by (simp add: days_in_month_def)
    moreover have "1 \<le> y" using a b c e by (simp add: y_def)
    moreover have "n \<le> MAXORDINAL \<longrightarrow> y \<le> 9999"
      using n normal a b c e t(2,3) unfolding max y_def by linarith
    moreover have "364878 \<le> n \<longrightarrow> 1000 \<le> y"
      using n normal a b c e t(2,3) unfolding y_def by linarith
    ultimately show ?thesis using props by (simp add: res md)
  qed
qed


section \<open>The text of a date\<close>

lemma str_nat_small: "n < 10 \<Longrightarrow> str_nat n = [48 + n]"
  by (simp add: str_nat.simps)

lemma str_nat_step: "10 \<le> n \<Longrightarrow> str_nat n = str_nat (n div 10) @ [48 + n mod 10]"
  by (subst str_nat.simps) simp

lemma str_nat_digits: "list_all is_digit (str_nat n)"
proof (induction n rule: str_nat.induct)
  case (1 n)
  show ?case
  proof (cases "n < 10")
    case True
    then show ?thesis by (simp add: str_nat_small is_digit_def)
  next
    case False
    have "n mod 10 < 10" by simp
    then have "is_digit (48 + n mod 10)" unfolding is_digit_def by linarith
    with 1 [OF False] False show ?thesis by (simp add: str_nat_step)
  qed
qed

lemma str_nat_length:
  "n < 10 \<Longrightarrow> length (str_nat n) = 1"
  "10 \<le> n \<Longrightarrow> n < 100 \<Longrightarrow> length (str_nat n) = 2"
  "100 \<le> n \<Longrightarrow> n < 1000 \<Longrightarrow> length (str_nat n) = 3"
  "1000 \<le> n \<Longrightarrow> n < 10000 \<Longrightarrow> length (str_nat n) = 4"
proof -
  show 1: "length (str_nat n) = 1" if "n < 10" for n
    using that by (simp add: str_nat_small)
  show 2: "length (str_nat n) = 2" if "10 \<le> n" "n < 100" for n
  proof -
    from that have "n div 10 < 10" by linarith
    with that 1 [of "n div 10"] show ?thesis by (simp add: str_nat_step)
  qed
  show 3: "length (str_nat n) = 3" if "100 \<le> n" "n < 1000" for n
  proof -
    from that have "10 \<le> n div 10" "n div 10 < 100" by linarith+
    with that 2 [of "n div 10"] show ?thesis by (simp add: str_nat_step)
  qed
  show "length (str_nat n) = 4" if "1000 \<le> n" "n < 10000" for n
  proof -
    from that have "100 \<le> n div 10" "n div 10 < 1000" by linarith+
    with that 3 [of "n div 10"] show ?thesis by (simp add: str_nat_step)
  qed
qed

lemma zfill_digits: "list_all is_digit s \<Longrightarrow> list_all is_digit (zfill w s)"
  by (auto simp: zfill_def is_digit_def list_all_iff)

lemma zfill_length: "length s \<le> w \<Longrightarrow> length (zfill w s) = w"
  by (simp add: zfill_def)

lemma two_digits: "n < 100 \<Longrightarrow> length (zfill 2 (str_nat n)) = 2"
  using str_nat_length(1,2) [of n] by (cases "n < 10") (simp_all add: zfill_length)

lemma four_digits: "n < 10000 \<Longrightarrow> length (zfill 4 (str_nat n)) = 4"
proof -
  assume "n < 10000"
  then consider "n < 10" | "10 \<le> n" "n < 100" | "100 \<le> n" "n < 1000"
    | "1000 \<le> n" "n < 10000"
    by linarith
  then have "length (str_nat n) \<le> 4"
    by cases (simp_all add: str_nat_length)
  then show ?thesis by (rule zfill_length)
qed

lemma YYYY_MM_DD_parts:
  assumes "length y = 4" "length m = 2" "length d = 2"
    and "list_all is_digit y" "list_all is_digit m" "list_all is_digit d"
  shows "YYYY_MM_DD (y @ ascii ''-'' @ m @ ascii ''-'' @ d)"
  using assms by (simp add: YYYY_MM_DD_def ascii_def nth_append)

lemma strftime_Ymd_calendar:
  assumes "dt_ordinal dt = n" "0 < n" "n \<le> MAXORDINAL"
  shows "(\<exists>y m d. ymd2ord y m d = n
            \<and> 1 \<le> y \<and> y \<le> 9999 \<and> 1 \<le> m \<and> m \<le> 12 \<and> 1 \<le> d \<and> d \<le> days_in_month y m
            \<and> strftime_Ymd pad dt =
                (if pad then zfill 4 (str_nat (nat y)) else str_nat (nat y))
                @ ascii ''-'' @ zfill 2 (str_nat (nat m))
                @ ascii ''-'' @ zfill 2 (str_nat (nat d)))
         \<and> (pad \<or> 364878 \<le> n \<longrightarrow> YYYY_MM_DD (strftime_Ymd pad dt))"
proof -
  obtain y m d where ymd: "ord2ymd n = (y, m, d)"
    by (cases "ord2ymd n")
  from assms(2) have "1 \<le> n" by simp
  from ord2ymd_correct [OF this] ymd assms(3)
  have props: "ymd2ord y m d = n" "1 \<le> y" "1 \<le> m" "m \<le> 12" "1 \<le> d"
    "d \<le> 31" "d \<le> days_in_month y m" "y \<le> 9999"
    and late: "364878 \<le> n \<Longrightarrow> 1000 \<le> y"
    by simp_all
  have fmt: "strftime_Ymd pad dt =
      (if pad then zfill 4 (str_nat (nat y)) else str_nat (nat y))
      @ ascii ''-'' @ zfill 2 (str_nat (nat m)) @ ascii ''-'' @ zfill 2 (str_nat (nat d))"
    by (simp add: strftime_Ymd_def assms(1) ymd)
  have shape: "YYYY_MM_DD (strftime_Ymd pad dt)" if "pad \<or> 364878 \<le> n"
  proof -
    have "length (if pad then zfill 4 (str_nat (nat y)) else str_nat (nat y)) = 4"
    proof (cases pad)
      case True
      with props show ?thesis by (simp add: four_digits)
    next
      case False
      with that late have "1000 \<le> y" by simp
      with False props show ?thesis by (simp add: str_nat_length(4))
    qed
    moreover have "list_all is_digit
        (if pad then zfill 4 (str_nat (nat y)) else str_nat (nat y))"
      by (simp add: str_nat_digits zfill_digits)
    moreover have "length (zfill 2 (str_nat (nat m))) = 2"
      "length (zfill 2 (str_nat (nat d))) = 2"
      using props by (simp_all add: two_digits)
    moreover have "list_all is_digit (zfill 2 (str_nat (nat m)))"
      "list_all is_digit (zfill 2 (str_nat (nat d)))"
      by (simp_all add: str_nat_digits zfill_digits)
    ultimately show ?thesis
      unfolding fmt by (intro YYYY_MM_DD_parts) simp_all
  qed
  from props fmt have "\<exists>y m d. ymd2ord y m d = n
            \<and> 1 \<le> y \<and> y \<le> 9999 \<and> 1 \<le> m \<and> m \<le> 12 \<and> 1 \<le> d \<and> d \<le> days_in_month y m
            \<and> strftime_Ymd pad dt =
                (if pad then zfill 4 (str_nat (nat y)) else str_nat (nat y))
                @ ascii ''-'' @ zfill 2 (str_nat (nat m))
                @ ascii ''-'' @ zfill 2 (str_nat (nat d))"
    by blast
  with shape show ?thesis by blast
qed

section \<open>Discount QR codes\<close>

lemma ascii_eq_Nil [simp]: "(ascii s = []) = (s = [])" "([] = ascii s) = (s = [])"
  by (auto simp: ascii_def)

lemma generate_qr_code_rejects:
  "(discount_type = ascii '''' \<or> discount_type = ascii ''percentage'') \<Longrightarrow>
   float_gt v 10 \<Longrightarrow>
   generate_qr_code now pad cid v discount_type days =
     Inr (PStr (ascii ''cannot generate a QR code for this amount, must be 10% or less''))"
  "discount_type = ascii ''fixed'' \<Longrightarrow> float_gt v 20 \<Longrightarrow>
   generate_qr_code now pad cid v discount_type days =
     Inr (PStr (ascii ''cannot generate a QR code for this amount, must be 20 or less''))"
  by (auto simp: generate_qr_code_def)

lemma generate_qr_code_passes:
  assumes "\<not> ((discount_type = ascii '''' \<or> discount_type = ascii ''percentage'')
              \<and> float_gt v 10)"
    and "\<not> (discount_type = ascii ''fixed'' \<and> float_gt v 20)"
  shows "\<bar>days\<bar> \<le> 999999999 \<Longrightarrow> 0 < dt_ordinal now + days \<Longrightarrow>
         dt_ordinal now + days \<le> MAXORDINAL \<Longrightarrow>
         generate_qr_code now pad cid v discount_type days =
           Inr (PDict [(ascii ''status'', PStr (ascii ''success'')),
                       (ascii ''qr_code_data'', PStr (ascii ''MOCK_QR_CODE_DATA'')),
                       (ascii ''expiration_date'',
                        PStr (strftime_Ymd pad (now\<lparr>dt_ordinal := dt_ordinal now + days\<rparr>)))])"
    and "999999999 < \<bar>days\<bar> \<or> dt_ordinal now + days \<le> 0
           \<or> MAXORDINAL < dt_ordinal now + days \<Longrightarrow>
         generate_qr_code now pad cid v discount_type days = Inl OverflowError"
  using assms by (auto simp: generate_qr_code_def timedelta_def datetime_add_def Let_def)

lemma example_dates:
  "strftime_Ymd pad (env_now example_env\<lparr>dt_ordinal := 739122\<rparr>) = ascii ''2024-08-24''"
  "strftime_Ymd False (env_now example_env\<lparr>dt_ordinal := 39092\<rparr>) = ascii ''108-01-12''"
  by (simp_all add: strftime_Ymd_def ord2ymd_def Let_def DI400Y_def DI100Y_def DI4Y_def
      DAYS_BEFORE_MONTH_def DAYS_IN_MONTH_def zfill_def str_nat.simps ascii_def)

lemma example_now: "dt_ordinal (env_now example_env) = 739092"
  by (simp add: example_env_def)

text \<open>
  Claim C2, as amended. When the discount type is "" or "percentage" and the value
  exceeds 10, or the type is "fixed" and the value exceeds 20, \<open>generate_qr_code\<close>
  returns its error message. Otherwise, provided \<open>expiration_days\<close> is at most
  999999999 in magnitude and the day it leads to lies from 0001-01-01 to 9999-12-31, it
  returns a success mapping whose \<open>expiration_date\<close> is \<open>strftime("%Y-%m-%d")\<close> of
  the current date plus \<open>expiration_days\<close>: the year, month and day of the valid
  calendar date whose day number is that of today plus \<open>expiration_days\<close>, of the
  form YYYY-MM-DD from the year 1000 (day 364878) on, and before it where the C library
  zero-fills the year. Outside that range of days the call raises \<open>OverflowError\<close>.
\<close>

theorem generate_qr_code_guardrail:
  "((discount_type = ascii '''' \<or> discount_type = ascii ''percentage'') \<and> float_gt v 10 \<longrightarrow>
      generate_qr_code now pad cid v discount_type days =
        Inr (PStr (ascii ''cannot generate a QR code for this amount, must be 10% or less'')))
   \<and> (discount_type = ascii ''fixed'' \<and> float_gt v 20 \<longrightarrow>
      generate_qr_code now pad cid v discount_type days =
        Inr (PStr (ascii ''cannot generate a QR code for this amount, must be 20 or less'')))
   \<and> (\<not> ((discount_type = ascii '''' \<or> discount_type = ascii ''percentage'') \<and> float_gt v 10)
      \<and> \<not> (discount_type = ascii ''fixed'' \<and> float_gt v 20)
      \<and> \<bar>days\<bar> \<le> 999999999 \<and> 0 < dt_ordinal now + days
      \<and> dt_ordinal now + days \<le> MAXORDINAL \<longrightarrow>
      generate_qr_code now pad cid v discount_type days =
        Inr (PDict [(ascii ''status'', PStr (ascii ''success'')),
                    (ascii ''qr_code_data'', PStr (ascii ''MOCK_QR_CODE_DATA'')),
                    (ascii ''expiration_date'',
                     PStr (strftime_Ymd pad (now\<lparr>dt_ordinal := dt_ordinal now + days\<rparr>)))])
      \<and> (\<exists>y m d. ymd2ord y m d = dt_ordinal now + days
            \<and> 1 \<le> y \<and> y \<le> 9999 \<and> 1 \<le> m \<and> m \<le> 12 \<and> 1 \<le> d \<and> d \<le> days_in_month y m
            \<and> strftime_Ymd pad (now\<lparr>dt_ordinal := dt_ordinal now + days\<rparr>) =
                (if pad then zfill 4 (str_nat (nat y)) else str_nat (nat y))
                @ ascii ''-'' @ zfill 2 (str_nat (nat m))
                @ ascii ''-'' @ zfill 2 (str_nat (nat d)))
      \<and> (pad \<or> 364878 \<le> dt_ordinal now + days \<longrightarrow>
            YYYY_MM_DD (strftime_Ymd pad (now\<lparr>dt_ordinal := dt_ordinal now + days\<rparr>))))
   \<and> (\<not> ((discount_type = ascii '''' \<or> discount_type = ascii ''percentage'') \<and> float_gt v 10)
      \<and> \<not> (discount_type = ascii ''fixed'' \<and> float_gt v 20)
      \<and> (999999999 < \<bar>days\<bar> \<or> dt_ordinal now + days \<le> 0
          \<or> MAXORDINAL < dt_ordinal now + days) \<longrightarrow>
      generate_qr_code now pad cid v discount_type days = Inl OverflowError)"
proof -
  have calendar: "(\<exists>y m d. ymd2ord y m d = dt_ordinal now + days
            \<and> 1 \<le> y \<and> y \<le> 9999 \<and> 1 \<le> m \<and> m \<le> 12 \<and> 1 \<le> d \<and> d \<le> days_in_month y m
            \<and> strftime_Ymd pad (now\<lparr>dt_ordinal := dt_ordinal now + days\<rparr>) =
                (if pad then zfill 4 (str_nat (nat y)) else str_nat (nat y))
                @ ascii ''-'' @ zfill 2 (str_nat (nat m))
                @ ascii ''-'' @ zfill 2 (str_nat (nat d)))
      \<and> (pad \<or> 364878 \<le> dt_ordinal now + days \<longrightarrow>
            YYYY_MM_DD (strftime_Ymd pad (now\<lparr>dt_ordinal := dt_ordinal now + days\<rparr>)))"
    if "0 < dt_ordinal now + days" "dt_ordinal now + days \<le> MAXORDINAL"
    using that by (intro strftime_Ymd_calendar) simp_all
  show ?thesis
    using generate_qr_code_rejects [of discount_type v now pad cid days]
      generate_qr_code_passes [of discount_type v days now pad cid] calendar
    by blast
qed

theorem generate_qr_code_guardrail_witness:
  "generate_qr_code (env_now example_env) False (ascii ''123'') (Finite 10)
      (ascii ''percentage'') 30 =
     Inr (PDict [(ascii ''status'', PStr (ascii ''success'')),
                 (ascii ''qr_code_data'', PStr (ascii ''MOCK_QR_CODE_DATA'')),
                 (ascii ''expiration_date'', PStr (ascii ''2024-08-24''))])
   \<and> YYYY_MM_DD (ascii ''2024-08-24'')
   \<and> generate_qr_code (env_now example_env) False (ascii ''123'') (Finite 11)
      (ascii '''') 30 =
     Inr (PStr (ascii ''cannot generate a QR code for this amount, must be 10% or less''))
   \<and> generate_qr_code (env_now example_env) False (ascii ''123'') (Finite 21)
      (ascii ''fixed'') 30 =
     Inr (PStr (ascii ''cannot generate a QR code for this amount, must be 20 or less''))
   \<and> generate_qr_code (env_now example_env) False (ascii ''123'') (Finite 20)
      (ascii ''fixed'') 4000000 = Inl OverflowError"
  using generate_qr_code_guardrail
      [of "ascii ''percentage''" "Finite 10" "env_now example_env" False "ascii ''123''" 30]
    generate_qr_code_guardrail
      [of "ascii ''''" "Finite 11" "env_now example_env" False "ascii ''123''" 30]
    generate_qr_code_guardrail
      [of "ascii ''fixed''" "Finite 21" "env_now example_env" False "ascii ''123''" 30]
    generate_qr_code_guardrail
      [of "ascii ''fixed''" "Finite 20" "env_now example_env" False "ascii ''123''" 4000000]
  by (simp add: example_now example_dates MAXORDINAL_def)

text \<open>
  Claim C2 as stated fails: a percentage discount of 5 passes the guardrail, and with
  \<open>expiration_days\<close> = 1000000000 the call raises instead of returning a success
  result; with \<open>expiration_days\<close> = -700000, where the C library does not zero-fill
  the year, the expiration date is "108-01-12", which is not of the form YYYY-MM-DD.
\<close>

theorem generate_qr_code_guardrail_counterexample:
  "generate_qr_code (env_now example_env) False (ascii ''123'') (Finite 5)
      (ascii ''percentage'') 1000000000 = Inl OverflowError
   \<and> generate_qr_code (env_now example_env) False (ascii ''123'') (Finite 5)
      (ascii ''percentage'') (- 700000) =
     Inr (PDict [(ascii ''status'', PStr (ascii ''success'')),
                 (ascii ''qr_code_data'', PStr (ascii ''MOCK_QR_CODE_DATA'')),
                 (ascii ''expiration_date'', PStr (ascii ''108-01-12''))])"
  by (simp add: generate_qr_code_def timedelta_def datetime_add_def example_now
      example_dates MAXORDINAL_def)

text \<open>
  Claim C4, as amended. For every discount type other than "", "percentage" and
  "fixed", and for every discount value however large, \<open>generate_qr_code\<close> applies no
  cap: provided \<open>expiration_days\<close> is at most 999999999 in magnitude and the day it
  leads to lies from 0001-01-01 to 9999-12-31, it returns a success mapping with a
  \<open>qr_code_data\<close> field and an \<open>expiration_date\<close>.
\<close>

theorem generate_qr_code_unrecognized_type:
  "discount_type \<notin> {ascii '''', ascii ''percentage'', ascii ''fixed''}
   \<and> \<bar>days\<bar> \<le> 999999999 \<and> 0 < dt_ordinal now + days
   \<and> dt_ordinal now + days \<le> MAXORDINAL \<longrightarrow>
   generate_qr_code now pad cid v discount_type days =
     Inr (PDict [(ascii ''status'', PStr (ascii ''success'')),
                 (ascii ''qr_code_data'', PStr (ascii ''MOCK_QR_CODE_DATA'')),
                 (ascii ''expiration_date'',
                  PStr (strftime_Ymd pad (now\<lparr>dt_ordinal := dt_ordinal now + days\<rparr>)))])"
  using generate_qr_code_passes(1) [of discount_type v days now pad cid]
  by auto

theorem generate_qr_code_unrecognized_type_witness:
  "generate_qr_code (env_now example_env) False (ascii ''123'') (Finite 1000000)
      (ascii ''flat'') 30 =
     Inr (PDict [(ascii ''status'', PStr (ascii ''success'')),
                 (ascii ''qr_code_data'', PStr (ascii ''MOCK_QR_CODE_DATA'')),
                 (ascii ''expiration_date'', PStr (ascii ''2024-08-24''))])
   \<and> generate_qr_code (env_now example_env) False (ascii ''123'') PosInf
      (ascii ''flat'') 30 =
     Inr (PDict [(ascii ''status'', PStr (ascii ''success'')),
                 (ascii ''qr_code_data'', PStr (ascii ''MOCK_QR_CODE_DATA'')),
                 (ascii ''expiration_date'', PStr (ascii ''2024-08-24''))])"
  using generate_qr_code_unrecognized_type
      [of "ascii ''flat''" 30 "env_now example_env" False "ascii ''123''" "Finite 1000000"]
    generate_qr_code_unrecognized_type
      [of "ascii ''flat''" 30 "env_now example_env" False "ascii ''123''" PosInf]
  by (simp add: example_now example_dates MAXORDINAL_def)

text \<open>
  Claim C4 as stated fails: with the unrecognized type "flat", the value 1000000 and
  \<open>expiration_days\<close> = 1000000000 the call raises instead of returning a success
  mapping.
\<close>

theorem generate_qr_code_unrecognized_type_counterexample:
  "generate_qr_code (env_now example_env) False (ascii ''123'') (Finite 1000000)
      (ascii ''flat'') 1000000000 = Inl OverflowError"
  by (simp add: generate_qr_code_def timedelta_def)

section \<open>Raising and error results\<close>




end
